theory Spec2Isabelle
  imports Main "HOL-Library.Sublist"
begin

section \<open>JavaScript values, promises and exceptions\<close>

text \<open>
  The handlers catch \<^verbatim>\<open>error: any\<close> and only ever read \<^verbatim>\<open>error?.message\<close>. An error is
  therefore its optional message: \<open>None\<close> stands for a thrown \<^verbatim>\<open>null\<close>/\<^verbatim>\<open>undefined\<close> and for
  an object without a \<^verbatim>\<open>message\<close>, \<open>Some m\<close> for a string message (possibly empty).
\<close>

datatype js_error = JsError (message: "string option")

text \<open>What an awaited promise settles to.\<close>

datatype 'a outcome = Resolved 'a | Rejected js_error

text \<open>How a block of statements ends: normally, or by an exception that leaves it.\<close>

datatype 's completion = Normal 's | Throw js_error 's

fun state_of :: "'s completion \<Rightarrow> 's" where
  "state_of (Normal s) = s"
| "state_of (Throw e s) = s"

fun throws :: "'s completion \<Rightarrow> bool" where
  "throws (Normal s) = False"
| "throws (Throw e s) = True"

text \<open>\<^verbatim>\<open>await p; rest\<close>: a rejection is thrown at the await, a resolution runs the rest.\<close>

definition await :: "'a outcome \<Rightarrow> ('a \<Rightarrow> 's \<Rightarrow> 's completion) \<Rightarrow> 's \<Rightarrow> 's completion" where
  "await out rest st = (case out of Resolved v \<Rightarrow> rest v st | Rejected e \<Rightarrow> Throw e st)"

text \<open>
  \<^verbatim>\<open>try { body } catch (error) { handler } finally { fin }\<close>. The \<^verbatim>\<open>finally\<close> blocks of the
  sources are single state setters, so \<open>fin\<close> is a state transformer that cannot throw.
\<close>

definition try_catch_finally ::
  "('s \<Rightarrow> 's completion) \<Rightarrow> (js_error \<Rightarrow> 's \<Rightarrow> 's completion) \<Rightarrow> ('s \<Rightarrow> 's) \<Rightarrow> 's \<Rightarrow> 's completion" where
  "try_catch_finally body handler fin st =
     (case body st of
        Normal s1 \<Rightarrow> Normal (fin s1)
      | Throw e s1 \<Rightarrow>
          (case handler e s1 of
             Normal s2 \<Rightarrow> Normal (fin s2)
           | Throw e2 s2 \<Rightarrow> Throw e2 (fin s2)))"

definition try_catch ::
  "('s \<Rightarrow> 's completion) \<Rightarrow> (js_error \<Rightarrow> 's \<Rightarrow> 's completion) \<Rightarrow> 's \<Rightarrow> 's completion" where
  "try_catch body handler = try_catch_finally body handler (\<lambda>s. s)"

subsection \<open>Strings\<close>

text \<open>
  \<^verbatim>\<open>String.prototype.includes\<close>: does the search string occur at some position. Strings are
  byte lists here; the only search string of the sources, \<^verbatim>\<open>'cancelled'\<close>, is ASCII.
\<close>

fun startsWith :: "string \<Rightarrow> string \<Rightarrow> bool" where
  "startsWith s [] = True"
| "startsWith [] (c # cs) = False"
| "startsWith (x # xs) (c # cs) = (x = c \<and> startsWith xs cs)"

fun includes_str :: "string \<Rightarrow> string \<Rightarrow> bool" where
  "includes_str [] search = (search = [])"
| "includes_str (x # xs) search = (startsWith (x # xs) search \<or> includes_str xs search)"

text \<open>\<^verbatim>\<open>s.slice(0, n)\<close> on a string.\<close>

definition slice0 :: "nat \<Rightarrow> string \<Rightarrow> string" where
  "slice0 n s = take n s"

text \<open>\<^verbatim>\<open>msg || fallback\<close> where \<open>msg\<close> is a string or absent: the empty string is falsy.\<close>

definition or_else :: "string option \<Rightarrow> string \<Rightarrow> string" where
  "or_else msg fallback = (case msg of None \<Rightarrow> fallback | Some m \<Rightarrow> if m = [] then fallback else m)"

text \<open>\<^verbatim>\<open>`${n}`\<close> for a non-negative integer (the value of \<^verbatim>\<open>Date.now()\<close>).\<close>

definition digit_char :: "nat \<Rightarrow> char" where
  "digit_char d = char_of (d + 48)"

fun decimal :: "nat \<Rightarrow> string" where
  "decimal n = (if n < 10 then [digit_char n] else decimal (n div 10) @ [digit_char (n mod 10)])"

section \<open>Data model\<close>

text \<open>\<^verbatim>\<open>type AuthProvider = 'google' | 'apple'\<close> (ConnectButton.tsx).\<close>

datatype AuthProvider = google | apple

text \<open>
  Modelled from the spec: the SDK's \<^verbatim>\<open>AddressType\<close> enumeration is imported from
  \<^verbatim>\<open>@phantom/react-native-sdk\<close> and not declared in the sources, which use its members
  \<^verbatim>\<open>solana\<close> and \<^verbatim>\<open>ethereum\<close>; the spec's chains are Solana and Ethereum. \<open>OtherChain\<close> stands
  for any further member.
\<close>

datatype AddressType = AddressType_solana | AddressType_ethereum | OtherChain string

text \<open>An entry of \<^verbatim>\<open>addresses\<close>.\<close>

record account =
  addressType :: AddressType
  address :: string

datatype nav_call = Push string | Replace string

text \<open>Calls made to the external collaborators (wallet SDK, balance lookup), in order.\<close>

datatype ext_call =
    Connect AuthProvider
  | Disconnect
  | SignMessage string
  | SignPersonalMessage string string
  | GetBalance string
  | ModalOpen

text \<open>A pending \<^verbatim>\<open>setTimeout\<close>; the only callback of the sources is \<^verbatim>\<open>() => modal.open()\<close>.\<close>

datatype callback = OpenModal

record timer =
  timer_id :: nat
  due :: nat
  action :: callback

text \<open>
  One record holds what the components read and write. The first group is owned by the SDK
  hooks (\<^verbatim>\<open>useAccounts\<close>, \<^verbatim>\<open>useConnect\<close>, \<^verbatim>\<open>useSolana\<close>, \<^verbatim>\<open>useEthereum\<close>, \<^verbatim>\<open>useModal\<close>) and only
  read by the application; \<open>solana\<close> and \<open>ethereum\<close> say whether the capability object is
  present. The second group is the \<^verbatim>\<open>useState\<close> cells of the components. The third group
  records the observable effects: alerts shown, console output, the navigation stack, calls
  to collaborators (\<open>calls\<close> is the log, \<open>inflight\<close> the promises not yet settled), and the
  JavaScript timer queue with its clock in milliseconds.
  The balance is a JavaScript number that the code stores and formats but never inspects:
  its type is the parameter \<open>'n\<close>.
\<close>

record 'n app =
  isConnected :: bool
  addresses :: "account list option"
  isConnecting :: bool
  isSolanaAvailable :: bool
  solana :: bool
  isEthereumAvailable :: bool
  ethereum :: bool
  modal_isOpened :: bool

  activeProvider :: "AuthProvider option"
  userError :: "string option"
  autoOpenCleanup :: "nat option"
  solBalance :: "'n option"
  isLoadingBalance :: bool
  isSigning :: bool

  alerts :: "(string \<times> string) list"
  console :: "(string \<times> js_error) list"
  nav_stack :: "string list"
  nav_calls :: "nav_call list"
  calls :: "ext_call list"
  inflight :: "ext_call list"
  now :: nat
  timers :: "timer list"
  next_timer :: nat

subsection \<open>Effects\<close>

definition Alert_alert :: "string \<Rightarrow> string \<Rightarrow> 'n app \<Rightarrow> 'n app" where
  "Alert_alert title msg st = st\<lparr>alerts := alerts st @ [(title, msg)]\<rparr>"

definition console_error :: "string \<Rightarrow> js_error \<Rightarrow> 'n app \<Rightarrow> 'n app" where
  "console_error label e st = st\<lparr>console := console st @ [(label, e)]\<rparr>"

text \<open>
  Modelled from the spec: the router of \<^verbatim>\<open>expo-router\<close> is not part of the sources. \<open>push\<close>
  is the reversible operation (a new entry on the stack), \<open>replace\<close> the non-reversible one
  (the current entry is overwritten). The head of the stack is the view shown.
\<close>

definition router_push :: "string \<Rightarrow> 'n app \<Rightarrow> 'n app" where
  "router_push path st =
     st\<lparr>nav_stack := path # nav_stack st, nav_calls := nav_calls st @ [Push path]\<rparr>"

definition router_replace :: "string \<Rightarrow> 'n app \<Rightarrow> 'n app" where
  "router_replace path st =
     st\<lparr>nav_stack := path # tl (nav_stack st), nav_calls := nav_calls st @ [Replace path]\<rparr>"

definition current_route :: "'n app \<Rightarrow> string option" where
  "current_route st = (case nav_stack st of [] \<Rightarrow> None | p # _ \<Rightarrow> Some p)"

text \<open>Calling an asynchronous collaborator leaves a promise in flight until it settles.\<close>

definition call :: "ext_call \<Rightarrow> 'n app \<Rightarrow> 'n app" where
  "call c st = st\<lparr>calls := calls st @ [c], inflight := inflight st @ [c]\<rparr>"

definition settle :: "ext_call \<Rightarrow> 'n app \<Rightarrow> 'n app" where
  "settle c st = st\<lparr>inflight := remove1 c (inflight st)\<rparr>"

text \<open>\<^verbatim>\<open>modal.open()\<close> is synchronous: it is logged, nothing stays in flight.\<close>

definition modal_open :: "'n app \<Rightarrow> 'n app" where
  "modal_open st = st\<lparr>calls := calls st @ [ModalOpen]\<rparr>"

section \<open>Connect Initiator, provider buttons (components/ConnectButton.tsx)\<close>

text \<open>
  Modelled from the spec: \<^verbatim>\<open>useConnect\<close> belongs to the SDK. Its \<^verbatim>\<open>isConnecting\<close> flag is taken
  to be true exactly while a \<^verbatim>\<open>connect\<close> call is in flight ("a pending attempt disables
  further invocation").
\<close>

definition sdk_connect :: "AuthProvider \<Rightarrow> 'n app \<Rightarrow> 'n app" where
  "sdk_connect provider st = (call (Connect provider) st)\<lparr>isConnecting := True\<rparr>"

definition sdk_connect_settled :: "AuthProvider \<Rightarrow> 'n app \<Rightarrow> 'n app" where
  "sdk_connect_settled provider st = (settle (Connect provider) st)\<lparr>isConnecting := False\<rparr>"

text \<open>\<^verbatim>\<open>handleConnect\<close> up to its \<^verbatim>\<open>await connect({ provider })\<close>.\<close>

definition handleConnect_begin :: "AuthProvider \<Rightarrow> 'n app \<Rightarrow> 'n app" where
  "handleConnect_begin provider st =
     sdk_connect provider (st\<lparr>activeProvider := Some provider, userError := None\<rparr>)"

text \<open>
  The \<^verbatim>\<open>catch\<close> block:
  \<^verbatim>\<open>if (error?.message && !error.message.includes('cancelled')) { setUserError; Alert.alert }\<close>.
\<close>

definition handleConnect_catch :: "js_error \<Rightarrow> 'n app \<Rightarrow> 'n app completion" where
  "handleConnect_catch error st =
     (let st1 = console_error ''Connection failed:'' error st in
      case message error of
        None \<Rightarrow> Normal st1
      | Some m \<Rightarrow>
          if m \<noteq> [] \<and> \<not> includes_str m ''cancelled''
          then Normal (Alert_alert ''Connection Failed'' m (st1\<lparr>userError := Some m\<rparr>))
          else Normal st1)"

text \<open>\<^verbatim>\<open>handleConnect\<close> from the moment the awaited call settles.\<close>

definition handleConnect_resume :: "unit outcome \<Rightarrow> 'n app \<Rightarrow> 'n app completion" where
  "handleConnect_resume out =
     try_catch_finally
       (await out (\<lambda>_ st. Normal (router_push ''/wallet'' st)))
       handleConnect_catch
       (\<lambda>st. st\<lparr>activeProvider := None\<rparr>)"

text \<open>One whole connect attempt with nothing interleaved.\<close>

definition handleConnect :: "AuthProvider \<Rightarrow> unit outcome \<Rightarrow> 'n app \<Rightarrow> 'n app completion" where
  "handleConnect provider out st =
     handleConnect_resume out (sdk_connect_settled provider (handleConnect_begin provider st))"

text \<open>
  A press on a provider button. The component renders nothing when \<open>isConnected\<close>; both
  buttons carry \<^verbatim>\<open>disabled={isConnecting}\<close>, and a disabled button does not call \<open>onPress\<close>.
\<close>

definition pressConnect :: "AuthProvider \<Rightarrow> 'n app \<Rightarrow> 'n app" where
  "pressConnect provider st =
     (if isConnected st then st
      else if isConnecting st then st
      else handleConnect_begin provider st)"

definition connectSettled :: "AuthProvider \<Rightarrow> unit outcome \<Rightarrow> 'n app \<Rightarrow> 'n app" where
  "connectSettled provider out st =
     state_of (handleConnect_resume out (sdk_connect_settled provider st))"

text \<open>The inline error text: \<^verbatim>\<open>{userError && <Text>Error: {userError}</Text>}\<close>.\<close>

definition errorText :: "'n app \<Rightarrow> string option" where
  "errorText st =
     (case userError st of
        None \<Rightarrow> None
      | Some m \<Rightarrow> if m = [] then None else Some (''Error: '' @ m))"

fun is_Connect :: "ext_call \<Rightarrow> bool" where
  "is_Connect (Connect p) = True"
| "is_Connect c = False"

definition pendingConnects :: "'n app \<Rightarrow> ext_call list" where
  "pendingConnects st = filter is_Connect (inflight st)"

section \<open>Connect Initiator, auto-opened modal (second ConnectButton)\<close>

text \<open>
  \<^verbatim>\<open>setTimeout\<close> and \<^verbatim>\<open>clearTimeout\<close> of the JavaScript runtime, over a clock in
  milliseconds: a timer fires once the clock has reached its due time.
\<close>

definition setTimeout :: "callback \<Rightarrow> nat \<Rightarrow> 'n app \<Rightarrow> nat \<times> 'n app" where
  "setTimeout cb ms st =
     (next_timer st,
      st\<lparr>timers := timers st @ [\<lparr>timer_id = next_timer st, due = now st + ms, action = cb\<rparr>],
         next_timer := next_timer st + 1\<rparr>)"

definition clearTimeout :: "nat \<Rightarrow> 'n app \<Rightarrow> 'n app" where
  "clearTimeout tid st = st\<lparr>timers := filter (\<lambda>t. timer_id t \<noteq> tid) (timers st)\<rparr>"

fun run_callback :: "callback \<Rightarrow> 'n app \<Rightarrow> 'n app" where
  "run_callback OpenModal st = modal_open st"

definition advance :: "nat \<Rightarrow> 'n app \<Rightarrow> 'n app" where
  "advance d st =
     (let t = now st + d;
          ready = filter (\<lambda>x. due x \<le> t) (timers st);
          waiting = filter (\<lambda>x. \<not> due x \<le> t) (timers st)
      in fold (\<lambda>x. run_callback (action x)) ready (st\<lparr>now := t, timers := waiting\<rparr>))"

text \<open>
  The effect with the empty dependency list runs once, when the component mounts; what it
  returns is kept as the cleanup and run when the component is torn down.
\<close>

definition ConnectButton_mount :: "'n app \<Rightarrow> 'n app" where
  "ConnectButton_mount st =
     (if \<not> isConnected st \<and> \<not> modal_isOpened st
      then (let (timer, st1) = setTimeout OpenModal 500 st
            in st1\<lparr>autoOpenCleanup := Some timer\<rparr>)
      else st\<lparr>autoOpenCleanup := None\<rparr>)"

definition ConnectButton_unmount :: "'n app \<Rightarrow> 'n app" where
  "ConnectButton_unmount st =
     (case autoOpenCleanup st of
        None \<Rightarrow> st
      | Some timer \<Rightarrow> (clearTimeout timer st)\<lparr>autoOpenCleanup := None\<rparr>)"

definition open_calls :: "'n app \<Rightarrow> nat" where
  "open_calls st = count_list (calls st) ModalOpen"

section \<open>Session Observer (app/index.tsx, WalletInfo)\<close>

text \<open>\<^verbatim>\<open>useEffect(() => { if (isConnected) router.replace('/wallet') }, [isConnected])\<close>.\<close>

definition HomeScreen_redirect :: "'n app \<Rightarrow> 'n app" where
  "HomeScreen_redirect st = (if isConnected st then router_replace ''/wallet'' st else st)"

text \<open>\<^verbatim>\<open>useEffect(() => { if (!isConnected) router.replace('/') }, [isConnected])\<close>.\<close>

definition WalletInfo_redirect :: "'n app \<Rightarrow> 'n app" where
  "WalletInfo_redirect st = (if \<not> isConnected st then router_replace ''/'' st else st)"

text \<open>
  Neither effect looks at the route shown: each runs whenever its screen is mounted and the
  flag has changed.

  Modelled from the spec: the route table is given by the file layout of the application,
  of which only the index route is in the sources. The unauthenticated view \<^verbatim>\<open>/\<close> is
  \<open>HomeScreen\<close>, the authenticated view \<^verbatim>\<open>/wallet\<close> is \<open>WalletInfo\<close>. The navigator keeps
  the screen of every entry of its stack mounted, so after a \<open>push\<close> the screen underneath
  is still there and its effects still run.
\<close>

datatype screen = HomeScreen | WalletInfo

definition screen_of :: "string \<Rightarrow> screen option" where
  "screen_of path =
     (if path = ''/'' then Some HomeScreen
      else if path = ''/wallet'' then Some WalletInfo
      else None)"

fun mounted_screens :: "string list \<Rightarrow> screen list" where
  "mounted_screens [] = []"
| "mounted_screens (path # paths) =
     (case screen_of path of
        None \<Rightarrow> mounted_screens paths
      | Some s \<Rightarrow> s # mounted_screens paths)"

definition mounted :: "'n app \<Rightarrow> screen list" where
  "mounted st = mounted_screens (nav_stack st)"

fun screen_redirect :: "screen \<Rightarrow> 'n app \<Rightarrow> 'n app" where
  "screen_redirect HomeScreen st = HomeScreen_redirect st"
| "screen_redirect WalletInfo st = WalletInfo_redirect st"

text \<open>The redirect effects of all mounted screens run, the screen on top first.\<close>

definition redirect_effect :: "'n app \<Rightarrow> 'n app" where
  "redirect_effect st = fold screen_redirect (mounted st) st"

text \<open>
  The SDK changes the session signal; an effect with dependency \<^verbatim>\<open>[isConnected]\<close> runs again
  only when the value has changed.
\<close>

definition sessionChanged :: "bool \<Rightarrow> 'n app \<Rightarrow> 'n app" where
  "sessionChanged connected st =
     (if isConnected st = connected then st
      else redirect_effect (st\<lparr>isConnected := connected\<rparr>))"




section \<open>Account Dashboard (WalletInfo)\<close>

text \<open>\<^verbatim>\<open>Array.prototype.find\<close>: the first element, in index order, that satisfies the test.\<close>

fun array_find :: "('a \<Rightarrow> bool) \<Rightarrow> 'a list \<Rightarrow> 'a option" where
  "array_find test [] = None"
| "array_find test (x # xs) = (if test x then Some x else array_find test xs)"

text \<open>
  \<^verbatim>\<open>addresses?.find(addr => addr.addressType === chainType)\<close>, the expression behind
  \<open>solanaAccount\<close> and \<open>ethereumAccount\<close>; \<open>None\<close> is an absent \<open>addresses\<close>.
\<close>

definition selectAccount :: "account list option \<Rightarrow> AddressType \<Rightarrow> account option" where
  "selectAccount addrs chainType =
     (case addrs of
        None \<Rightarrow> None
      | Some as \<Rightarrow> array_find (\<lambda>addr. addressType addr = chainType) as)"

definition solanaAccount :: "'n app \<Rightarrow> account option" where
  "solanaAccount st = selectAccount (addresses st) AddressType_solana"

definition ethereumAccount :: "'n app \<Rightarrow> account option" where
  "ethereumAccount st = selectAccount (addresses st) AddressType_ethereum"

subsection \<open>fetchBalance\<close>

definition fetchBalance_begin :: "string \<Rightarrow> 'n app \<Rightarrow> 'n app" where
  "fetchBalance_begin addr st = call (GetBalance addr) (st\<lparr>isLoadingBalance := True\<rparr>)"

definition fetchBalance_resume :: "'n outcome \<Rightarrow> 'n app \<Rightarrow> 'n app completion" where
  "fetchBalance_resume out =
     try_catch_finally
       (await out (\<lambda>bal st. Normal (st\<lparr>solBalance := Some bal\<rparr>)))
       (\<lambda>error st. Normal (console_error ''Failed to fetch balance:'' error st))
       (\<lambda>st. st\<lparr>isLoadingBalance := False\<rparr>)"

definition fetchBalance :: "string \<Rightarrow> 'n outcome \<Rightarrow> 'n app \<Rightarrow> 'n app completion" where
  "fetchBalance addr out st =
     fetchBalance_resume out (settle (GetBalance addr) (fetchBalance_begin addr st))"

text \<open>
  The balance row:
  \<^verbatim>\<open>isLoadingBalance ? <ActivityIndicator/> : <Text>{solBalance?.toFixed(4) ?? '0.0000'} SOL</Text>\<close>.
  \<^verbatim>\<open>Number.prototype.toFixed\<close> is a parameter.
\<close>

datatype balance_view = ActivityIndicator | BalanceText string

definition balanceText :: "('n \<Rightarrow> nat \<Rightarrow> string) \<Rightarrow> 'n option \<Rightarrow> string" where
  "balanceText toFixed bal =
     (case bal of None \<Rightarrow> ''0.0000'' | Some b \<Rightarrow> toFixed b 4) @ '' SOL''"

definition balanceAmount :: "('n \<Rightarrow> nat \<Rightarrow> string) \<Rightarrow> 'n app \<Rightarrow> balance_view" where
  "balanceAmount toFixed st =
     (if isLoadingBalance st then ActivityIndicator
      else BalanceText (balanceText toFixed (solBalance st)))"

subsection \<open>Signing\<close>

text \<open>\<^verbatim>\<open>`Hello from Phantom SDK! Timestamp: ${Date.now()}`\<close>.\<close>

definition sign_message_text :: "'n app \<Rightarrow> string" where
  "sign_message_text st = ''Hello from Phantom SDK! Timestamp: '' @ decimal (now st)"

text \<open>The title \<^verbatim>\<open>'Signed! '\<close> followed by U+2713 (check mark), in UTF-8.\<close>

definition signed_title :: string where
  "signed_title = ''Signed! '' @ [CHR 0xE2, CHR 0x9C, CHR 0x93]"

text \<open>
  The \<^verbatim>\<open>catch\<close> block shared by both sign handlers:
  \<^verbatim>\<open>if (!error?.message?.includes('cancelled')) Alert.alert('Error', error?.message || 'Signing failed')\<close>.
  With an absent message the optional chain yields \<^verbatim>\<open>undefined\<close>, whose negation is true.
\<close>

definition sign_catch :: "js_error \<Rightarrow> 'n app \<Rightarrow> 'n app completion" where
  "sign_catch error st =
     (if \<not> (case message error of None \<Rightarrow> False | Some m \<Rightarrow> includes_str m ''cancelled'')
      then Normal (Alert_alert ''Error'' (or_else (message error) ''Signing failed'') st)
      else Normal st)"

text \<open>\<^verbatim>\<open>if (!isSolanaAvailable || !solana) return;\<close>\<close>

definition handleSignSolanaMessage_guard :: "'n app \<Rightarrow> bool" where
  "handleSignSolanaMessage_guard st = (\<not> isSolanaAvailable st \<or> \<not> solana st)"

definition handleSignSolanaMessage_begin :: "'n app \<Rightarrow> 'n app" where
  "handleSignSolanaMessage_begin st =
     (let st1 = st\<lparr>isSigning := True\<rparr>
      in call (SignMessage (sign_message_text st1)) st1)"

definition handleSignSolanaMessage_resume :: "string outcome \<Rightarrow> 'n app \<Rightarrow> 'n app completion" where
  "handleSignSolanaMessage_resume out =
     try_catch_finally
       (await out (\<lambda>signature st.
          Normal (Alert_alert signed_title (''Signature: '' @ slice0 16 signature @ ''...'') st)))
       sign_catch
       (\<lambda>st. st\<lparr>isSigning := False\<rparr>)"

definition handleSignSolanaMessage :: "string outcome \<Rightarrow> 'n app \<Rightarrow> 'n app completion" where
  "handleSignSolanaMessage out st =
     (if handleSignSolanaMessage_guard st then Normal st
      else handleSignSolanaMessage_resume out
             (settle (SignMessage (sign_message_text st)) (handleSignSolanaMessage_begin st)))"

text \<open>\<^verbatim>\<open>if (!isEthereumAvailable || !ethereum || !ethereumAccount?.address) return;\<close>\<close>

definition handleSignEthereumMessage_guard :: "'n app \<Rightarrow> bool" where
  "handleSignEthereumMessage_guard st =
     (\<not> isEthereumAvailable st \<or> \<not> ethereum st \<or>
      (case ethereumAccount st of None \<Rightarrow> True | Some a \<Rightarrow> address a = []))"

definition ethereum_sign_call :: "'n app \<Rightarrow> ext_call" where
  "ethereum_sign_call st =
     SignPersonalMessage (sign_message_text st)
       (case ethereumAccount st of None \<Rightarrow> [] | Some a \<Rightarrow> address a)"

definition handleSignEthereumMessage_begin :: "'n app \<Rightarrow> 'n app" where
  "handleSignEthereumMessage_begin st =
     (let st1 = st\<lparr>isSigning := True\<rparr>
      in call (ethereum_sign_call st1) st1)"

definition handleSignEthereumMessage_resume :: "string outcome \<Rightarrow> 'n app \<Rightarrow> 'n app completion" where
  "handleSignEthereumMessage_resume out =
     try_catch_finally
       (await out (\<lambda>signature st.
          Normal (Alert_alert signed_title (''Signature: '' @ slice0 16 signature @ ''...'') st)))
       sign_catch
       (\<lambda>st. st\<lparr>isSigning := False\<rparr>)"

definition handleSignEthereumMessage :: "string outcome \<Rightarrow> 'n app \<Rightarrow> 'n app completion" where
  "handleSignEthereumMessage out st =
     (if handleSignEthereumMessage_guard st then Normal st
      else handleSignEthereumMessage_resume out
             (settle (ethereum_sign_call st) (handleSignEthereumMessage_begin st)))"

subsection \<open>The sign buttons as rendered\<close>

text \<open>
  \<^verbatim>\<open>disabled={isSigning || !isSolanaAvailable}\<close>, and inside the button
  \<^verbatim>\<open>isSigning ? <ActivityIndicator/> : <Text>Sign Message</Text>\<close>; the same for Ethereum.
  A card is rendered only when its account is present.
\<close>

record button =
  disabled :: bool
  spinner :: bool

datatype chain = Solana | Ethereum

fun signButton :: "chain \<Rightarrow> 'n app \<Rightarrow> button" where
  "signButton Solana st = \<lparr>disabled = (isSigning st \<or> \<not> isSolanaAvailable st), spinner = isSigning st\<rparr>"
| "signButton Ethereum st = \<lparr>disabled = (isSigning st \<or> \<not> isEthereumAvailable st), spinner = isSigning st\<rparr>"

fun chainCard :: "chain \<Rightarrow> 'n app \<Rightarrow> button option" where
  "chainCard Solana st = (case solanaAccount st of None \<Rightarrow> None | Some a \<Rightarrow> Some (signButton Solana st))"
| "chainCard Ethereum st = (case ethereumAccount st of None \<Rightarrow> None | Some a \<Rightarrow> Some (signButton Ethereum st))"

text \<open>The sign sub-state a card shows.\<close>

datatype sign_substate = SignIdle | SignPending

definition sign_substate :: "chain \<Rightarrow> 'n app \<Rightarrow> sign_substate" where
  "sign_substate c st = (if spinner (signButton c st) then SignPending else SignIdle)"

text \<open>A press on a card's sign button; a disabled or absent button does nothing.\<close>

fun pressSign :: "chain \<Rightarrow> 'n app \<Rightarrow> 'n app" where
  "pressSign Solana st =
     (case chainCard Solana st of
        None \<Rightarrow> st
      | Some b \<Rightarrow>
          if disabled b then st
          else if handleSignSolanaMessage_guard st then st
          else handleSignSolanaMessage_begin st)"
| "pressSign Ethereum st =
     (case chainCard Ethereum st of
        None \<Rightarrow> st
      | Some b \<Rightarrow>
          if disabled b then st
          else if handleSignEthereumMessage_guard st then st
          else handleSignEthereumMessage_begin st)"

text \<open>The awaited signer call of a card settles and its handler runs to the end.\<close>

fun is_sign :: "chain \<Rightarrow> ext_call \<Rightarrow> bool" where
  "is_sign Solana (SignMessage m) = True"
| "is_sign Ethereum (SignPersonalMessage m a) = True"
| "is_sign c x = False"

definition settle_sign :: "chain \<Rightarrow> 'n app \<Rightarrow> 'n app" where
  "settle_sign c st =
     (case array_find (is_sign c) (inflight st) of None \<Rightarrow> st | Some x \<Rightarrow> settle x st)"

fun signSettled :: "chain \<Rightarrow> string outcome \<Rightarrow> 'n app \<Rightarrow> 'n app" where
  "signSettled Solana out st =
     state_of (handleSignSolanaMessage_resume out (settle_sign Solana st))"
| "signSettled Ethereum out st =
     state_of (handleSignEthereumMessage_resume out (settle_sign Ethereum st))"

subsection \<open>handleDisconnect\<close>

definition handleDisconnect_begin :: "'n app \<Rightarrow> 'n app" where
  "handleDisconnect_begin st = call Disconnect st"

definition handleDisconnect_resume :: "unit outcome \<Rightarrow> 'n app \<Rightarrow> 'n app completion" where
  "handleDisconnect_resume out =
     try_catch
       (await out (\<lambda>_ st. Normal (router_replace ''/'' st)))
       (\<lambda>error st. Normal (console_error ''Disconnect failed:'' error st))"

definition handleDisconnect :: "unit outcome \<Rightarrow> 'n app \<Rightarrow> 'n app completion" where
  "handleDisconnect out st =
     handleDisconnect_resume out (settle Disconnect (handleDisconnect_begin st))"

section \<open>Reachable states of the connect lifecycle\<close>

text \<open>
  Before any attempt nothing is in flight. From there the user presses provider buttons,
  in-flight \<^verbatim>\<open>connect\<close> calls settle either way, and the SDK changes the session signal.
\<close>

definition connect_idle :: "'n app \<Rightarrow> bool" where
  "connect_idle st = (\<not> isConnecting st \<and> pendingConnects st = [] \<and> activeProvider st = None)"

inductive reachable :: "'n app \<Rightarrow> bool" where
  start: "connect_idle st \<Longrightarrow> reachable st"
| press: "reachable st \<Longrightarrow> reachable (pressConnect provider st)"
| settled: "reachable st \<Longrightarrow> Connect provider \<in> set (inflight st) \<Longrightarrow>
            reachable (connectSettled provider out st)"
| session: "reachable st \<Longrightarrow> reachable (sessionChanged connected st)"

text \<open>
  The invariant of the connect lifecycle: the flag \<open>isConnecting\<close>, the local \<open>activeProvider\<close> and the
  presence of a \<open>connect\<close> call in flight agree, and at most one such call is in flight.
\<close>

definition connect_inv :: "'n app \<Rightarrow> bool" where
  "connect_inv st =
     (isConnecting st = (pendingConnects st \<noteq> []) \<and>
      (activeProvider st \<noteq> None) = (pendingConnects st \<noteq> []) \<and>
      length (pendingConnects st) \<le> 1)"

section \<open>Sample states\<close>

text \<open>The application just started, on the unauthenticated view, nobody connected.\<close>

definition home0 :: "int app" where
  "home0 = \<lparr>isConnected = False, addresses = Some [], isConnecting = False,
     isSolanaAvailable = False, solana = False, isEthereumAvailable = False, ethereum = False,
     modal_isOpened = False, activeProvider = None, userError = None, autoOpenCleanup = None,
     solBalance = None, isLoadingBalance = False, isSigning = False,
     alerts = [], console = [], nav_stack = [''/''], nav_calls = [], calls = [], inflight = [],
     now = 0, timers = [], next_timer = 0\<rparr>"

text \<open>A connected session with one Solana and one Ethereum address, on the dashboard.\<close>

definition wallet0 :: "int app" where
  "wallet0 = home0\<lparr>isConnected := True,
     addresses := Some [\<lparr>addressType = AddressType_solana, address = ''A''\<rparr>,
                        \<lparr>addressType = AddressType_ethereum, address = ''B''\<rparr>],
     isSolanaAvailable := True, solana := True, isEthereumAvailable := True, ethereum := True,
     nav_stack := [''/wallet'']\<rparr>"

section \<open>Auxiliary facts\<close>

text \<open>\<open>includes_str\<close> is the substring test: the search string occurs somewhere in \<open>s\<close>.\<close>

lemma startsWith_prefix: "startsWith s search = prefix search s"
  by (induction s search rule: startsWith.induct) auto

lemma includes_str_sublist: "includes_str s search = sublist search s"
  by (induction s) (auto simp: startsWith_prefix sublist_Cons_right)

lemma includes_str_iff:
  "includes_str s search \<longleftrightarrow> (\<exists>before after. s = before @ search @ after)"
  by (simp add: includes_str_sublist sublist_def)

lemma array_find_find: "array_find test xs = List.find test xs"
  by (induction xs) auto

lemmas exn_defs = try_catch_finally_def try_catch_def await_def Let_def

lemmas effect_defs = Alert_alert_def console_error_def router_push_def router_replace_def
  call_def settle_def

lemmas connect_defs = handleConnect_def handleConnect_resume_def handleConnect_begin_def
  handleConnect_catch_def sdk_connect_def sdk_connect_settled_def

lemmas sign_defs = handleSignSolanaMessage_def handleSignSolanaMessage_resume_def
  handleSignSolanaMessage_begin_def handleSignEthereumMessage_def
  handleSignEthereumMessage_resume_def handleSignEthereumMessage_begin_def sign_catch_def
  or_else_def

lemmas guard_defs = handleSignSolanaMessage_guard_def handleSignEthereumMessage_guard_def
  ethereumAccount_def solanaAccount_def selectAccount_def

lemmas sample_defs = home0_def wallet0_def

section \<open>Errors of connect and sign attempts\<close>

text \<open>
  C1, as amended. For every error of a connect or sign attempt whose message is present and
  not empty: no alert is shown when the message contains \<^verbatim>\<open>cancelled\<close>, exactly one alert
  carrying that message is shown otherwise, nothing is thrown to the caller, and in both
  cases the attempt is idle again (\<open>activeProvider\<close> and \<open>isConnecting\<close> cleared for connect,
  \<open>isSigning\<close> cleared for sign). A sign attempt exists only when the handler's guard lets
  it start.
\<close>

theorem error_alert_unless_cancelled:
  assumes "message error = Some m" and "m \<noteq> []"
  shows "(\<not> throws (handleConnect provider (Rejected error) st) \<and>
          alerts (state_of (handleConnect provider (Rejected error) st)) =
            alerts st @ (if includes_str m ''cancelled'' then [] else [(''Connection Failed'', m)]) \<and>
          activeProvider (state_of (handleConnect provider (Rejected error) st)) = None \<and>
          isConnecting (state_of (handleConnect provider (Rejected error) st)) = False) \<and>
         (\<not> handleSignSolanaMessage_guard st \<longrightarrow>
          \<not> throws (handleSignSolanaMessage (Rejected error) st) \<and>
          alerts (state_of (handleSignSolanaMessage (Rejected error) st)) =
            alerts st @ (if includes_str m ''cancelled'' then [] else [(''Error'', m)]) \<and>
          isSigning (state_of (handleSignSolanaMessage (Rejected error) st)) = False) \<and>
         (\<not> handleSignEthereumMessage_guard st \<longrightarrow>
          \<not> throws (handleSignEthereumMessage (Rejected error) st) \<and>
          alerts (state_of (handleSignEthereumMessage (Rejected error) st)) =
            alerts st @ (if includes_str m ''cancelled'' then [] else [(''Error'', m)]) \<and>
          isSigning (state_of (handleSignEthereumMessage (Rejected error) st)) = False)"
proof (intro conjI impI)
  note [simp] = exn_defs effect_defs connect_defs assms
  show "\<not> throws (handleConnect provider (Rejected error) st)" by simp
  show "alerts (state_of (handleConnect provider (Rejected error) st)) =
          alerts st @ (if includes_str m ''cancelled'' then [] else [(''Connection Failed'', m)])"
    by simp
  show "activeProvider (state_of (handleConnect provider (Rejected error) st)) = None" by simp
  show "isConnecting (state_of (handleConnect provider (Rejected error) st)) = False" by simp
next
  note [simp] = exn_defs effect_defs sign_defs assms
  assume g: "\<not> handleSignSolanaMessage_guard st"
  from g show "\<not> throws (handleSignSolanaMessage (Rejected error) st)" by simp
  from g show "alerts (state_of (handleSignSolanaMessage (Rejected error) st)) =
          alerts st @ (if includes_str m ''cancelled'' then [] else [(''Error'', m)])" by simp
  from g show "isSigning (state_of (handleSignSolanaMessage (Rejected error) st)) = False" by simp
next
  note [simp] = exn_defs effect_defs sign_defs assms
  assume g: "\<not> handleSignEthereumMessage_guard st"
  from g show "\<not> throws (handleSignEthereumMessage (Rejected error) st)" by simp
  from g show "alerts (state_of (handleSignEthereumMessage (Rejected error) st)) =
          alerts st @ (if includes_str m ''cancelled'' then [] else [(''Error'', m)])" by simp
  from g show "isSigning (state_of (handleSignEthereumMessage (Rejected error) st)) = False" by simp
qed

text \<open>
  C1, witness: on the dashboard state, the message \<^verbatim>\<open>boom\<close> gives one alert on each of the
  three paths and the message \<^verbatim>\<open>User cancelled\<close> gives none.
\<close>

theorem error_alert_unless_cancelled_witness:
  "message (JsError (Some ''boom'')) = Some ''boom'' \<and> ''boom'' \<noteq> [] \<and>
   \<not> handleSignSolanaMessage_guard wallet0 \<and> \<not> handleSignEthereumMessage_guard wallet0 \<and>
   alerts (state_of (handleConnect google (Rejected (JsError (Some ''boom''))) wallet0)) =
     [(''Connection Failed'', ''boom'')] \<and>
   alerts (state_of (handleSignSolanaMessage (Rejected (JsError (Some ''boom''))) wallet0)) =
     [(''Error'', ''boom'')] \<and>
   alerts (state_of (handleSignEthereumMessage (Rejected (JsError (Some ''boom''))) wallet0)) =
     [(''Error'', ''boom'')] \<and>
   alerts (state_of (handleConnect google (Rejected (JsError (Some ''User cancelled''))) wallet0)) = [] \<and>
   alerts (state_of (handleSignSolanaMessage (Rejected (JsError (Some ''User cancelled''))) wallet0)) = []"
  using error_alert_unless_cancelled [of "JsError (Some ''boom'')" "''boom''" google wallet0]
    error_alert_unless_cancelled [of "JsError (Some ''User cancelled'')" "''User cancelled''" google wallet0]
  by (simp add: sample_defs guard_defs)

text \<open>
  C1, counterexample to the claim as first stated: the empty message does not contain
  \<^verbatim>\<open>cancelled\<close>, yet a connect attempt failing with it shows no alert, and a sign attempt
  failing with it shows an alert whose text is the fallback, not that message.
\<close>

theorem empty_message_counterexample:
  "\<not> includes_str [] ''cancelled'' \<and>
   alerts (state_of (handleConnect google (Rejected (JsError (Some []))) home0)) = [] \<and>
   alerts (state_of (handleSignSolanaMessage (Rejected (JsError (Some []))) wallet0)) =
     [(''Error'', ''Signing failed'')]"
  by (simp add: sample_defs exn_defs effect_defs connect_defs sign_defs guard_defs)

text \<open>
  C9. A connect attempt failing with an absent or empty message is suppressed completely: no
  alert, no inline error text, nothing thrown. A sign attempt failing with an absent message
  shows one alert with the fallback text \<^verbatim>\<open>Signing failed\<close>.
\<close>

theorem absent_message_connect_silent_sign_fallback:
  "(message error = None \<or> message error = Some [] \<longrightarrow>
      \<not> throws (handleConnect provider (Rejected error) st) \<and>
      alerts (state_of (handleConnect provider (Rejected error) st)) = alerts st \<and>
      errorText (state_of (handleConnect provider (Rejected error) st)) = None) \<and>
   (message error = None \<longrightarrow> \<not> handleSignSolanaMessage_guard st \<longrightarrow>
      alerts (state_of (handleSignSolanaMessage (Rejected error) st)) =
        alerts st @ [(''Error'', ''Signing failed'')]) \<and>
   (message error = None \<longrightarrow> \<not> handleSignEthereumMessage_guard st \<longrightarrow>
      alerts (state_of (handleSignEthereumMessage (Rejected error) st)) =
        alerts st @ [(''Error'', ''Signing failed'')])"
proof (intro conjI impI)
  assume m: "message error = None \<or> message error = Some []"
  note [simp] = exn_defs effect_defs connect_defs
  from m show "\<not> throws (handleConnect provider (Rejected error) st)" by auto
  from m show "alerts (state_of (handleConnect provider (Rejected error) st)) = alerts st"
    by auto
  from m show "errorText (state_of (handleConnect provider (Rejected error) st)) = None"
    by (auto simp: errorText_def)
next
  assume "message error = None" and "\<not> handleSignSolanaMessage_guard st"
  then show "alerts (state_of (handleSignSolanaMessage (Rejected error) st)) =
        alerts st @ [(''Error'', ''Signing failed'')]"
    by (simp add: exn_defs effect_defs sign_defs)
next
  assume "message error = None" and "\<not> handleSignEthereumMessage_guard st"
  then show "alerts (state_of (handleSignEthereumMessage (Rejected error) st)) =
        alerts st @ [(''Error'', ''Signing failed'')]"
    by (simp add: exn_defs effect_defs sign_defs)
qed

text \<open>C9, witness: an error without message, on the dashboard state.\<close>

theorem absent_message_witness:
  "message (JsError None) = None \<and>
   \<not> handleSignSolanaMessage_guard wallet0 \<and> \<not> handleSignEthereumMessage_guard wallet0 \<and>
   alerts (state_of (handleConnect apple (Rejected (JsError None)) wallet0)) = [] \<and>
   errorText (state_of (handleConnect apple (Rejected (JsError None)) wallet0)) = None \<and>
   alerts (state_of (handleSignSolanaMessage (Rejected (JsError None)) wallet0)) =
     [(''Error'', ''Signing failed'')] \<and>
   alerts (state_of (handleSignEthereumMessage (Rejected (JsError None)) wallet0)) =
     [(''Error'', ''Signing failed'')]"
  using absent_message_connect_silent_sign_fallback [of "JsError None" apple wallet0]
  by (simp add: sample_defs guard_defs)

section \<open>Disconnect\<close>

text \<open>
  C2, as amended. \<open>handleDisconnect\<close> never throws and never shows an alert. When the SDK
  call succeeds it navigates to the unauthenticated view with \<open>replace\<close>. When the SDK call
  fails it logs the error to the console and performs no navigation at all.
\<close>

theorem handleDisconnect_outcomes:
  "\<not> throws (handleDisconnect out st) \<and>
   alerts (state_of (handleDisconnect out st)) = alerts st \<and>
   nav_calls (state_of (handleDisconnect (Resolved ()) st)) = nav_calls st @ [Replace ''/''] \<and>
   current_route (state_of (handleDisconnect (Resolved ()) st)) = Some ''/'' \<and>
   console (state_of (handleDisconnect (Resolved ()) st)) = console st \<and>
   nav_calls (state_of (handleDisconnect (Rejected error) st)) = nav_calls st \<and>
   nav_stack (state_of (handleDisconnect (Rejected error) st)) = nav_stack st \<and>
   console (state_of (handleDisconnect (Rejected error) st)) =
     console st @ [(''Disconnect failed:'', error)]"
proof -
  note [simp] = exn_defs effect_defs handleDisconnect_def handleDisconnect_resume_def
    handleDisconnect_begin_def current_route_def
  have "\<not> throws (handleDisconnect out st)" by (cases out) simp_all
  moreover have "alerts (state_of (handleDisconnect out st)) = alerts st"
    by (cases out) simp_all
  ultimately show ?thesis by simp
qed

text \<open>C2, witness: both outcomes on the dashboard state.\<close>

theorem handleDisconnect_outcomes_witness:
  "current_route (state_of (handleDisconnect (Resolved ()) wallet0)) = Some ''/'' \<and>
   nav_calls (state_of (handleDisconnect (Resolved ()) wallet0)) = [Replace ''/''] \<and>
   nav_calls (state_of (handleDisconnect (Rejected (JsError (Some ''network error''))) wallet0)) = [] \<and>
   console (state_of (handleDisconnect (Rejected (JsError (Some ''network error''))) wallet0)) =
     [(''Disconnect failed:'', JsError (Some ''network error''))]"
  using handleDisconnect_outcomes [of "Resolved ()" wallet0 "JsError (Some ''network error'')"]
  by (simp add: sample_defs)

text \<open>
  C2, counterexample to the claim as first stated: on the dashboard, with the session still
  connected, a failed SDK disconnect leaves the user on the authenticated view; no
  navigation call is made, and the redirect effect of the dashboard does not move either.
\<close>

theorem disconnect_failure_counterexample:
  "current_route (state_of (handleDisconnect (Rejected (JsError (Some ''network error''))) wallet0))
     = Some ''/wallet'' \<and>
   nav_calls (state_of (handleDisconnect (Rejected (JsError (Some ''network error''))) wallet0)) = [] \<and>
   current_route (redirect_effect
     (state_of (handleDisconnect (Rejected (JsError (Some ''network error''))) wallet0)))
     = Some ''/wallet''"
  by (simp add: sample_defs exn_defs effect_defs handleDisconnect_def handleDisconnect_resume_def
      handleDisconnect_begin_def current_route_def redirect_effect_def WalletInfo_redirect_def
      mounted_def screen_of_def)

section \<open>Account Dashboard\<close>

text \<open>
  C8. For every list of address entries and every chain type, \<open>selectAccount\<close> returns the
  first entry whose type matches, or nothing when no entry matches; on the list of a Solana
  entry \<^verbatim>\<open>A\<close> and an Ethereum entry \<^verbatim>\<open>B\<close> it returns the entry \<^verbatim>\<open>B\<close> for Ethereum. Being a
  function of its two arguments, it is deterministic and pure.
\<close>

theorem selectAccount_first_match:
  "(selectAccount (Some as) chainType = None \<longleftrightarrow>
      (\<forall>a \<in> set as. addressType a \<noteq> chainType)) \<and>
   (selectAccount (Some as) chainType = Some a \<longleftrightarrow>
      (\<exists>i<length as. as ! i = a \<and> addressType a = chainType \<and>
         (\<forall>j<i. addressType (as ! j) \<noteq> chainType))) \<and>
   selectAccount
     (Some [\<lparr>addressType = AddressType_solana, address = ''A''\<rparr>,
            \<lparr>addressType = AddressType_ethereum, address = ''B''\<rparr>])
     AddressType_ethereum = Some \<lparr>addressType = AddressType_ethereum, address = ''B''\<rparr>"
proof (intro conjI)
  show "selectAccount (Some as) chainType = None \<longleftrightarrow>
      (\<forall>a \<in> set as. addressType a \<noteq> chainType)"
    by (auto simp: selectAccount_def array_find_find find_None_iff)
  show "selectAccount (Some as) chainType = Some a \<longleftrightarrow>
      (\<exists>i<length as. as ! i = a \<and> addressType a = chainType \<and>
         (\<forall>j<i. addressType (as ! j) \<noteq> chainType))"
    by (auto simp: selectAccount_def array_find_find find_Some_iff)
  show "selectAccount
     (Some [\<lparr>addressType = AddressType_solana, address = ''A''\<rparr>,
            \<lparr>addressType = AddressType_ethereum, address = ''B''\<rparr>])
     AddressType_ethereum = Some \<lparr>addressType = AddressType_ethereum, address = ''B''\<rparr>"
    by (simp add: selectAccount_def)
qed

text \<open>
  C8, witness: with two Ethereum entries the first one is returned, and a chain with no
  entry gives nothing.
\<close>

theorem selectAccount_first_match_witness:
  "selectAccount
     (Some [\<lparr>addressType = AddressType_solana, address = ''A''\<rparr>,
            \<lparr>addressType = AddressType_ethereum, address = ''B''\<rparr>,
            \<lparr>addressType = AddressType_ethereum, address = ''C''\<rparr>])
     AddressType_ethereum = Some \<lparr>addressType = AddressType_ethereum, address = ''B''\<rparr> \<and>
   (selectAccount (Some [\<lparr>addressType = AddressType_solana, address = ''A''\<rparr>])
      AddressType_ethereum = None) =
   (\<forall>a \<in> set [\<lparr>addressType = AddressType_solana, address = ''A''\<rparr>].
      addressType a \<noteq> AddressType_ethereum)"
  using selectAccount_first_match
    [of "[\<lparr>addressType = AddressType_solana, address = ''A''\<rparr>]" AddressType_ethereum]
  by (simp add: selectAccount_def)

text \<open>
  C7. A failed balance fetch does not throw, shows no alert, leaves the stored balance as it
  was, so that the balance row shows the previous amount, or \<^verbatim>\<open>0.0000 SOL\<close> when none was
  ever loaded; and whatever the outcome, the loading indicator is cleared. The same holds
  from the moment the awaited lookup settles, whatever happened while it was in flight.
\<close>

theorem fetchBalance_failure_keeps_balance:
  "\<not> throws (fetchBalance addr out st) \<and>
   isLoadingBalance (state_of (fetchBalance addr out st)) = False \<and>
   solBalance (state_of (fetchBalance addr (Rejected error) st)) = solBalance st \<and>
   alerts (state_of (fetchBalance addr (Rejected error) st)) = alerts st \<and>
   balanceAmount toFixed (state_of (fetchBalance addr (Rejected error) st)) =
     BalanceText (balanceText toFixed (solBalance st)) \<and>
   balanceText toFixed None = ''0.0000 SOL'' \<and>
   \<not> throws (fetchBalance_resume out st) \<and>
   isLoadingBalance (state_of (fetchBalance_resume out st)) = False \<and>
   solBalance (state_of (fetchBalance_resume (Rejected error) st)) = solBalance st"
proof -
  note [simp] = exn_defs effect_defs fetchBalance_def fetchBalance_resume_def
    fetchBalance_begin_def balanceAmount_def balanceText_def
  have "\<not> throws (fetchBalance addr out st)" by (cases out) simp_all
  moreover have "isLoadingBalance (state_of (fetchBalance addr out st)) = False"
    by (cases out) simp_all
  moreover have "\<not> throws (fetchBalance_resume out st)" by (cases out) simp_all
  moreover have "isLoadingBalance (state_of (fetchBalance_resume out st)) = False"
    by (cases out) simp_all
  ultimately show ?thesis by simp
qed

text \<open>
  C7, witness: with the balance 3 loaded before, and with no balance loaded before; the
  number formatter is a stand-in.
\<close>

theorem fetchBalance_failure_witness:
  "balanceAmount (\<lambda>b digits. ''3.0000'')
     (state_of (fetchBalance ''A'' (Rejected (JsError None)) (wallet0\<lparr>solBalance := Some 3\<rparr>))) =
     BalanceText ''3.0000 SOL'' \<and>
   balanceAmount (\<lambda>b digits. ''3.0000'')
     (state_of (fetchBalance ''A'' (Rejected (JsError None)) wallet0)) =
     BalanceText ''0.0000 SOL'' \<and>
   isLoadingBalance (state_of (fetchBalance ''A'' (Rejected (JsError None)) wallet0)) = False"
  using fetchBalance_failure_keeps_balance
      [of "''A''" "Rejected (JsError None)" "wallet0\<lparr>solBalance := Some 3\<rparr>" "JsError None"
          "\<lambda>b digits. ''3.0000''"]
    fetchBalance_failure_keeps_balance
      [of "''A''" "Rejected (JsError None)" wallet0 "JsError None" "\<lambda>b digits. ''3.0000''"]
  by (simp add: sample_defs balanceText_def)

text \<open>
  C10. When the Ethereum signer is unavailable, or the Ethereum capability object or the
  Ethereum address is missing, the Ethereum sign action returns at once: the whole state is
  unchanged (signing flag, balance, alerts, calls to the SDK), whatever the signer would
  have answered. The Solana sign action does the same when the Solana signer is unavailable
  or its capability object is missing.
\<close>

theorem sign_guard_noop:
  "(\<not> isEthereumAvailable st \<or> \<not> ethereum st \<or>
    selectAccount (addresses st) AddressType_ethereum = None \<or>
    (\<exists>a. selectAccount (addresses st) AddressType_ethereum = Some a \<and> address a = [])
    \<longrightarrow> handleSignEthereumMessage out st = Normal st \<and> pressSign Ethereum st = st) \<and>
   (\<not> isSolanaAvailable st \<or> \<not> solana st
    \<longrightarrow> handleSignSolanaMessage out st = Normal st \<and> pressSign Solana st = st)"
  by (auto simp: handleSignEthereumMessage_def handleSignSolanaMessage_def guard_defs
      split: option.splits)

text \<open>
  C10, witness: the dashboard state without the Ethereum capability object, and without
  the Solana signer.
\<close>

theorem sign_guard_noop_witness:
  "\<not> ethereum (wallet0\<lparr>ethereum := False, isSolanaAvailable := False\<rparr>) \<and>
   \<not> isSolanaAvailable (wallet0\<lparr>ethereum := False, isSolanaAvailable := False\<rparr>) \<and>
   handleSignEthereumMessage (Resolved ''0xabc'') (wallet0\<lparr>ethereum := False, isSolanaAvailable := False\<rparr>)
     = Normal (wallet0\<lparr>ethereum := False, isSolanaAvailable := False\<rparr>) \<and>
   handleSignSolanaMessage (Resolved ''abc'') (wallet0\<lparr>ethereum := False, isSolanaAvailable := False\<rparr>)
     = Normal (wallet0\<lparr>ethereum := False, isSolanaAvailable := False\<rparr>)"
  using sign_guard_noop [of "wallet0\<lparr>ethereum := False, isSolanaAvailable := False\<rparr>" "Resolved ''0xabc''"]
    sign_guard_noop [of "wallet0\<lparr>ethereum := False, isSolanaAvailable := False\<rparr>" "Resolved ''abc''"]
  by (simp add: sample_defs)

section \<open>Sign sub-states of the chain cards\<close>

text \<open>
  C3, as amended. The two chain cards show one shared sign sub-state: in every state both
  cards are in the same sub-state. A press that starts a sign attempt on either card puts
  both cards in \<open>SignPending\<close>; when the attempt settles, with a signature or an error, both
  are back in \<open>SignIdle\<close>; and while a card is in \<open>SignPending\<close> a press on either card does
  nothing.
\<close>

theorem sign_substate_shared:
  "sign_substate Solana st = sign_substate Ethereum st \<and>
   (pressSign c st \<noteq> st \<longrightarrow>
      sign_substate Solana (pressSign c st) = SignPending \<and>
      sign_substate Ethereum (pressSign c st) = SignPending) \<and>
   sign_substate Solana (signSettled c out st) = SignIdle \<and>
   sign_substate Ethereum (signSettled c out st) = SignIdle \<and>
   (sign_substate c st = SignPending \<longrightarrow> pressSign c' st = st)"
proof (intro conjI impI)
  show "sign_substate Solana st = sign_substate Ethereum st"
    by (simp add: sign_substate_def)
next
  assume p: "pressSign c st \<noteq> st"
  then have "isSigning (pressSign c st)"
    by (cases c)
      (auto simp: handleSignSolanaMessage_begin_def handleSignEthereumMessage_begin_def
        call_def Let_def split: option.splits if_splits)
  then show "sign_substate Solana (pressSign c st) = SignPending"
    and "sign_substate Ethereum (pressSign c st) = SignPending"
    by (simp_all add: sign_substate_def)
next
  have "\<not> isSigning (signSettled c out st)"
    by (cases c; cases out)
      (auto simp: exn_defs effect_defs sign_defs settle_sign_def split: option.splits)
  then show "sign_substate Solana (signSettled c out st) = SignIdle"
    and "sign_substate Ethereum (signSettled c out st) = SignIdle"
    by (simp_all add: sign_substate_def)
next
  assume "sign_substate c st = SignPending"
  then have "isSigning st"
    by (cases c) (auto simp: sign_substate_def split: if_splits)
  then show "pressSign c' st = st"
    by (cases c') (auto split: option.splits)
qed

text \<open>
  C3, witness: a press on the Solana card of the idle dashboard starts an attempt; both
  cards are then pending, a press on the Ethereum card does nothing, and both cards are
  idle once the attempt has failed.
\<close>

theorem sign_substate_shared_witness:
  "pressSign Solana wallet0 \<noteq> wallet0 \<and>
   sign_substate Solana (pressSign Solana wallet0) = SignPending \<and>
   sign_substate Ethereum (pressSign Solana wallet0) = SignPending \<and>
   pressSign Ethereum (pressSign Solana wallet0) = pressSign Solana wallet0 \<and>
   sign_substate Ethereum (signSettled Solana (Rejected (JsError None)) (pressSign Solana wallet0))
     = SignIdle"
proof -
  have started: "pressSign Solana wallet0 \<noteq> wallet0"
  proof
    assume "pressSign Solana wallet0 = wallet0"
    then have "isSigning (pressSign Solana wallet0) = isSigning wallet0" by simp
    then show False
      by (simp add: sample_defs guard_defs handleSignSolanaMessage_begin_def call_def Let_def)
  qed
  from started
    sign_substate_shared [of wallet0 Solana "Rejected (JsError None)" Ethereum]
    sign_substate_shared [of "pressSign Solana wallet0" Solana "Rejected (JsError None)" Ethereum]
  show ?thesis by simp
qed

text \<open>
  C3, counterexample to the claim as first stated: the Ethereum card of the idle dashboard
  is in \<open>SignIdle\<close>; once a Solana sign attempt is pending, the Ethereum card shows
  \<open>SignPending\<close> too, its button is disabled, and a press on it starts nothing.
\<close>

theorem sign_substates_coupled_counterexample:
  "sign_substate Ethereum wallet0 = SignIdle \<and>
   sign_substate Solana (pressSign Solana wallet0) = SignPending \<and>
   sign_substate Ethereum (pressSign Solana wallet0) = SignPending \<and>
   disabled (signButton Ethereum (pressSign Solana wallet0)) \<and>
   pressSign Ethereum (pressSign Solana wallet0) = pressSign Solana wallet0"
  by (simp add: sample_defs guard_defs sign_substate_def handleSignSolanaMessage_begin_def
      handleSignEthereumMessage_begin_def call_def Let_def)

section \<open>Auto-opened modal\<close>

text \<open>
  C4. Mounting the connect view while disconnected, with the modal closed and no timer
  pending, schedules exactly one timer, due 500 ms later, that opens the modal. Before the
  delay has elapsed no \<open>open()\<close> call has occurred; once it has elapsed exactly one has
  occurred, and no further one follows. If the view is torn down before the delay has
  elapsed the timer is cancelled and no \<open>open()\<close> call ever occurs.
\<close>

theorem auto_open_modal_timer:
  assumes "\<not> isConnected st" and "\<not> modal_isOpened st" and "timers st = []"
  shows "timers (ConnectButton_mount st) =
           [\<lparr>timer_id = next_timer st, due = now st + 500, action = OpenModal\<rparr>] \<and>
         (d < 500 \<longrightarrow> open_calls (advance d (ConnectButton_mount st)) = open_calls st) \<and>
         (500 \<le> d \<longrightarrow>
            open_calls (advance d (ConnectButton_mount st)) = open_calls st + 1 \<and>
            open_calls (advance d' (advance d (ConnectButton_mount st))) = open_calls st + 1) \<and>
         (d < 500 \<longrightarrow>
            timers (ConnectButton_unmount (advance d (ConnectButton_mount st))) = [] \<and>
            open_calls (advance d' (ConnectButton_unmount (advance d (ConnectButton_mount st))))
              = open_calls st)"
proof (intro conjI impI)
  note [simp] = ConnectButton_mount_def ConnectButton_unmount_def setTimeout_def
    clearTimeout_def advance_def Let_def assms
  show "timers (ConnectButton_mount st) =
           [\<lparr>timer_id = next_timer st, due = now st + 500, action = OpenModal\<rparr>]"
    by simp
  show "open_calls (advance d (ConnectButton_mount st)) = open_calls st" if "d < 500"
    using that by (simp add: open_calls_def)
  show "open_calls (advance d (ConnectButton_mount st)) = open_calls st + 1" if "500 \<le> d"
    using that by (simp add: open_calls_def modal_open_def)
  show "open_calls (advance d' (advance d (ConnectButton_mount st))) = open_calls st + 1"
    if "500 \<le> d"
    using that by (simp add: open_calls_def modal_open_def)
  show "timers (ConnectButton_unmount (advance d (ConnectButton_mount st))) = []" if "d < 500"
    using that by simp
  show "open_calls (advance d' (ConnectButton_unmount (advance d (ConnectButton_mount st))))
              = open_calls st" if "d < 500"
    using that by (simp add: open_calls_def)
qed

text \<open>
  C4, witness: from the fresh unauthenticated view, one call after 500 ms and still one after
  a further second; none when torn down after 499 ms, however long one waits.
\<close>

theorem auto_open_modal_timer_witness:
  "\<not> isConnected home0 \<and> \<not> modal_isOpened home0 \<and> timers home0 = [] \<and>
   open_calls (advance 499 (ConnectButton_mount home0)) = 0 \<and>
   open_calls (advance 500 (ConnectButton_mount home0)) = 1 \<and>
   open_calls (advance 1000 (advance 500 (ConnectButton_mount home0))) = 1 \<and>
   open_calls (advance 1000 (ConnectButton_unmount (advance 499 (ConnectButton_mount home0)))) = 0"
  using auto_open_modal_timer [of home0 499 1000] auto_open_modal_timer [of home0 500 1000]
  by (simp add: sample_defs open_calls_def)

section \<open>At most one connect attempt\<close>

lemma handleConnect_resume_frame:
  "inflight (state_of (handleConnect_resume out st)) = inflight st"
  "isConnecting (state_of (handleConnect_resume out st)) = isConnecting st"
  "activeProvider (state_of (handleConnect_resume out st)) = None"
  by (auto simp: handleConnect_resume_def handleConnect_catch_def exn_defs effect_defs
      split: outcome.splits option.splits)

lemma screen_redirect_frame:
  "inflight (screen_redirect x st) = inflight st"
  "isConnecting (screen_redirect x st) = isConnecting st"
  "activeProvider (screen_redirect x st) = activeProvider st"
  "isConnected (screen_redirect x st) = isConnected st"
  by (cases x; simp add: HomeScreen_redirect_def WalletInfo_redirect_def router_replace_def)+

lemma fold_redirect_frame:
  "inflight (fold screen_redirect xs st) = inflight st \<and>
   isConnecting (fold screen_redirect xs st) = isConnecting st \<and>
   activeProvider (fold screen_redirect xs st) = activeProvider st \<and>
   isConnected (fold screen_redirect xs st) = isConnected st"
  by (induction xs arbitrary: st) (simp_all add: screen_redirect_frame)

lemma sessionChanged_frame:
  "inflight (sessionChanged connected st) = inflight st"
  "isConnecting (sessionChanged connected st) = isConnecting st"
  "activeProvider (sessionChanged connected st) = activeProvider st"
  by (simp_all add: sessionChanged_def redirect_effect_def fold_redirect_frame)

lemma filter_at_most_one:
  assumes "length (filter P xs) \<le> 1" and "x \<in> set xs" and "P x"
  shows "filter P (remove1 x xs) = []"
proof -
  from assms(2,3) have "x \<in> set (filter P xs)" by simp
  with assms(1) have "filter P xs = [x]"
    by (cases "filter P xs") auto
  then have "remove1 x (filter P xs) = []" by simp
  with assms(3) show ?thesis by (simp add: filter_remove1)
qed

text \<open>The invariant holds in every reachable state.\<close>

lemma reachable_connect_inv: "reachable st \<Longrightarrow> connect_inv st"
proof (induction rule: reachable.induct)
  case (start st)
  then show ?case by (simp add: connect_idle_def connect_inv_def)
next
  case (press st provider)
  then show ?case
    by (simp add: connect_inv_def pressConnect_def handleConnect_begin_def sdk_connect_def
        call_def pendingConnects_def)
next
  case (settled st provider out)
  from settled.IH have "length (filter is_Connect (inflight st)) \<le> 1"
    by (simp add: connect_inv_def pendingConnects_def)
  with settled.hyps(2) have "filter is_Connect (remove1 (Connect provider) (inflight st)) = []"
    by (intro filter_at_most_one) simp_all
  then show ?case
    by (simp add: connect_inv_def connectSettled_def pendingConnects_def
        handleConnect_resume_frame sdk_connect_settled_def settle_def)
next
  case (session st connected)
  then show ?case
    by (simp add: connect_inv_def pendingConnects_def sessionChanged_frame)
qed

text \<open>
  C5. In every reachable state, while a connect attempt is pending (the SDK reports
  \<open>isConnecting\<close>, equivalently a \<open>connect\<close> call is in flight) a press on either provider
  button changes nothing, and never are two connect attempts in flight at once.
\<close>

theorem no_concurrent_connect:
  assumes "reachable st"
  shows "(isConnecting st \<longrightarrow> pressConnect provider st = st) \<and>
         (pendingConnects st \<noteq> [] \<longrightarrow> pressConnect provider st = st) \<and>
         length (pendingConnects st) \<le> 1"
  using reachable_connect_inv [OF assms]
  by (simp add: connect_inv_def pressConnect_def)

text \<open>
  C5, witness: after a press on the Google button of the fresh view one attempt is pending,
  and a press on the Apple button changes nothing.
\<close>

theorem no_concurrent_connect_witness:
  "reachable (pressConnect google home0) \<and>
   isConnecting (pressConnect google home0) \<and>
   pendingConnects (pressConnect google home0) = [Connect google] \<and>
   pressConnect apple (pressConnect google home0) = pressConnect google home0"
proof -
  have "connect_idle home0"
    by (simp add: connect_idle_def pendingConnects_def home0_def)
  then have r: "reachable (pressConnect google home0)"
    by (intro reachable.press reachable.start)
  have "isConnecting (pressConnect google home0)"
    and "pendingConnects (pressConnect google home0) = [Connect google]"
    by (simp_all add: pressConnect_def handleConnect_begin_def sdk_connect_def call_def
        pendingConnects_def home0_def)
  with r no_concurrent_connect [OF r, of apple] show ?thesis by simp
qed

section \<open>Session-driven navigation\<close>









end
